theory Spec2Isabelle
  imports Main
begin

section \<open>The sliding-window admission gate (RateLimitService)\<close>

subsection \<open>The Redis sorted set the gate keeps per client\<close>

text \<open>
  The gate stores a Redis sorted set under the key \<open>ratelimit:\<close> followed by the client
  key. A member is the string \<open>now .. ':' .. math.random()\<close>, its score is \<open>now\<close>. A
  member is modelled as the pair of the timestamp and the random draw it is built from
  (two member strings are equal exactly when both parts are), a sorted set as the list of
  its members with their scores. A key that is not there is the empty sorted set, as in
  Redis. The time to live given to \<open>EXPIRE\<close> is recorded per key; Redis removes a sorted
  set that has become empty together with its time to live. Letting a key expire is an
  action of the Redis server, not of the service, and is not part of these functions.
\<close>

type_synonym member = "int \<times> nat"
type_synonym zset = "(member \<times> int) list"

record rl_store =
  zsets :: "string \<Rightarrow> zset"
  ttls :: "string \<Rightarrow> int option"

datatype redis_error = RedisError

text \<open>\<open>ZREMRANGEBYSCORE key -inf max\<close>: removes every member whose score is at most \<open>max\<close>.\<close>

definition zremrangebyscore :: "string \<Rightarrow> int \<Rightarrow> rl_store \<Rightarrow> rl_store" where
  "zremrangebyscore key mx st =
     (let z = filter (\<lambda>(m, s). \<not> s \<le> mx) (zsets st key)
      in st\<lparr>zsets := (zsets st)(key := z),
            ttls := (if z = [] then (ttls st)(key := None) else ttls st)\<rparr>)"

text \<open>\<open>ZCOUNT key min +inf\<close>: the number of members whose score is at least \<open>min\<close>.\<close>

definition zcount :: "string \<Rightarrow> int \<Rightarrow> rl_store \<Rightarrow> int" where
  "zcount key mn st = int (length (filter (\<lambda>(m, s). mn \<le> s) (zsets st key)))"

text \<open>\<open>ZADD key score member\<close>: a member already in the set only has its score updated.\<close>

definition zadd :: "string \<Rightarrow> int \<Rightarrow> member \<Rightarrow> rl_store \<Rightarrow> rl_store" where
  "zadd key score m st =
     (let z = zsets st key;
          z' = (if m \<in> fst ` set z
                then map (\<lambda>(m', s'). if m' = m then (m', score) else (m', s')) z
                else z @ [(m, score)])
      in st\<lparr>zsets := (zsets st)(key := z')\<rparr>)"

text \<open>
  \<open>EXPIRE key seconds\<close> on an existing key, for a positive number of seconds. The script
  passes \<open>math.ceil(window / 1000) + 60\<close>, which is positive unless the window is
  \<open>-60000\<close> ms or less; for a number that is not positive Redis deletes the key instead,
  which is left out here.
\<close>

definition expire :: "string \<Rightarrow> int \<Rightarrow> rl_store \<Rightarrow> rl_store" where
  "expire key seconds st =
     (if zsets st key = [] then st else st\<lparr>ttls := (ttls st)(key := Some seconds)\<rparr>)"

text \<open>
  \<open>ZRANGE key 0 0 WITHSCORES\<close>: the member of least score with its score, nothing for an
  empty set. Among members of equal score Redis takes the least member string; the script
  reads only the score of the reply, which is the same for all of them.
\<close>

fun zrange_first :: "zset \<Rightarrow> (member \<times> int) option" where
  "zrange_first [] = None"
| "zrange_first (e # z) =
     (case zrange_first z of
        None \<Rightarrow> Some e
      | Some e' \<Rightarrow> if snd e \<le> snd e' then Some e else Some e')"

subsection \<open>checkAndRecordRequest\<close>

definition DEFAULT_profile_windowMs :: int where
  "DEFAULT_profile_windowMs = 60 * 1000"

definition DEFAULT_profile_maxRequests :: int where
  "DEFAULT_profile_maxRequests = 10"

text \<open>
  \<open>x || d\<close> on an optional number: the default is taken when the argument is missing
  (\<open>None\<close>) and also when it is \<open>0\<close>, which JavaScript counts as false.
\<close>

definition or_default :: "int option \<Rightarrow> int \<Rightarrow> int" where
  "or_default x d = (case x of None \<Rightarrow> d | Some v \<Rightarrow> if v = 0 then d else v)"

text \<open>\<open>math.ceil(window / 1000)\<close> on an integer number of milliseconds.\<close>

definition ceil_div_1000 :: "int \<Rightarrow> int" where
  "ceil_div_1000 w = - ((- w) div 1000)"

text \<open>
  The Lua script, run by Redis as one atomic unit. It returns
  \<open>{current, oldest_time, allowed}\<close> and the store it leaves.
\<close>

definition lua_script ::
  "string \<Rightarrow> int \<Rightarrow> int \<Rightarrow> int \<Rightarrow> int \<Rightarrow> nat \<Rightarrow> rl_store \<Rightarrow> (int \<times> int \<times> int) \<times> rl_store" where
  "lua_script key now window_start limit window rnd st =
     (let st1 = zremrangebyscore key window_start st;
          current = zcount key window_start st1;
          (allowed, current', st2) =
             (if current < limit
              then (1, current + 1,
                    expire key (ceil_div_1000 window + 60) (zadd key now (now, rnd) st1))
              else (0, current, st1));
          oldest_time = (case zrange_first (zsets st2 key) of
                           None \<Rightarrow> now
                         | Some (m, s) \<Rightarrow> s)
      in ((current', oldest_time, allowed), st2))"

record rl_result =
  allowed :: bool
  remaining :: int
  resetTime :: int
  total :: int
  currentCount :: int

text \<open>
  \<open>checkAndRecordRequest(key, windowMs, maxRequests)\<close>. \<open>eval_ok\<close> says whether the call of
  \<open>redis.eval\<close> goes through; when it does not, the rejection of the promise reaches the
  caller. \<open>now\<close> is the reading of \<open>Date.now()\<close>, \<open>rnd\<close> the draw of \<open>math.random()\<close>.
\<close>

definition redisKey :: "string \<Rightarrow> string" where
  "redisKey key = ''ratelimit:'' @ key"

definition checkAndRecordRequest ::
  "bool \<Rightarrow> int \<Rightarrow> nat \<Rightarrow> rl_store \<Rightarrow> string \<Rightarrow> int option \<Rightarrow> int option
     \<Rightarrow> redis_error + (rl_result \<times> rl_store)" where
  "checkAndRecordRequest eval_ok now rnd st key windowMs maxRequests =
     (let window = or_default windowMs DEFAULT_profile_windowMs;
          limit = or_default maxRequests DEFAULT_profile_maxRequests;
          windowStart = now - window
      in if \<not> eval_ok then Inl RedisError
         else
           (let ((current, oldestTimestamp, allowed_flag), st') =
                   lua_script (redisKey key) now windowStart limit window rnd st
            in Inr (\<lparr>allowed = (allowed_flag = 1),
                      remaining = max 0 (limit - current),
                      resetTime = oldestTimestamp + window,
                      total = limit,
                      currentCount = current\<rparr>, st')))"


text \<open>
  Notions used to state what the gate does. \<open>surviving ws z\<close> are the entries of \<open>z\<close> that
  the pruning at \<open>ws = now - window\<close> leaves: those of score greater than \<open>ws\<close> (an entry
  exactly \<open>window\<close> old is pruned). \<open>added now rnd z\<close> is \<open>z\<close> after \<open>ZADD\<close> of the
  member built from \<open>now\<close> and \<open>rnd\<close>. \<open>recorded qs\<close> is the sorted set holding exactly the
  requests \<open>qs\<close>. \<open>oldest_time now z\<close> is the script's reading of the reply to \<open>ZRANGE\<close>.
\<close>

definition surviving :: "int \<Rightarrow> zset \<Rightarrow> zset" where
  "surviving ws z = filter (\<lambda>(m, s). ws < s) z"

definition added :: "int \<Rightarrow> nat \<Rightarrow> zset \<Rightarrow> zset" where
  "added now rnd z =
     (if (now, rnd) \<in> fst ` set z
      then map (\<lambda>(m', s'). if m' = (now, rnd) then (m', now) else (m', s')) z
      else z @ [((now, rnd), now)])"


definition oldest_time :: "int \<Rightarrow> zset \<Rightarrow> int" where
  "oldest_time now z = (case zrange_first z of None \<Rightarrow> now | Some (m, s) \<Rightarrow> s)"

section \<open>The client key (RateLimitService.getClientKey)\<close>

text \<open>
  Strings are lists of characters with codes below 256, as a raw header has them.
  \<open>is_ws\<close> holds of the white space among them that \<open>String.prototype.trim\<close> removes
  (space, tab, line feed, vertical tab, form feed, carriage return and the no-break space
  U+00A0); \<open>split_first\<close> is \<open>s.split(',')[0]\<close>, the part of \<open>s\<close> before its first
  comma.
\<close>

definition is_ws :: "char \<Rightarrow> bool" where
  "is_ws c =
     (c \<in> set [CHR '' '', CHR 0x09, CHR 0x0A, CHR 0x0B, CHR 0x0C, CHR 0x0D, CHR 0xA0])"

definition trim :: "string \<Rightarrow> string" where
  "trim s = rev (dropWhile is_ws (rev (dropWhile is_ws s)))"

definition split_first :: "string \<Rightarrow> string" where
  "split_first s = takeWhile (\<lambda>c. c \<noteq> CHR '','') s"

text \<open>
  \<open>getClientKey(ip, userAgent, forwardedFor)\<close>. A missing argument is \<open>None\<close>; a missing
  and an empty string both count as false in \<open>forwardedFor ? ... : ip\<close> and in
  \<open>userAgent || 'unknown'\<close>.
\<close>

definition getClientKey :: "string \<Rightarrow> string option \<Rightarrow> string option \<Rightarrow> string" where
  "getClientKey ip userAgent forwardedFor =
     (let primaryIp = (case forwardedFor of
                         None \<Rightarrow> ip
                       | Some f \<Rightarrow> if f = [] then ip else trim (split_first f));
          identifier = primaryIp @ '':'' @
                       (case userAgent of
                          None \<Rightarrow> ''unknown''
                        | Some u \<Rightarrow> if u = [] then ''unknown'' else u)
      in take 200 identifier)"

section \<open>The profile cache and the refresh cooldown (CacheService)\<close>

text \<open>
  A property of a JavaScript object that may be missing (\<open>undefined\<close>), \<open>null\<close> or an
  object: the three states of a cached field.
\<close>

datatype 'a field = Undefined | Null | Value 'a

text \<open>Payloads the cache and the route only pass on are kept as their JSON text.\<close>

type_synonym json = string

record steam_profile =
  steam_steamId64 :: string
  username :: string
  avatar :: "string option"
  steam_rest :: json

record teammate =
  steam64_id :: string
  recent_matches_count :: int
  tm_name :: "string option"
  tm_avatar :: "string option"

record leetify_stats =
  recent_teammates :: "teammate list option"
  leetify_rest :: json

record user_profile =
  steam :: steam_profile
  faceit :: "json field"
  leetify :: "leetify_stats field"
  premier :: "json field"
  competitive :: "json field"
  wingman :: "json field"
  risk :: json

text \<open>
  The two key spaces of the cache's Redis connection: \<open>profile:<id>\<close> holds the JSON of a
  profile, \<open>refresh:<id>\<close> the decimal rendering of \<open>Date.now()\<close> at the last refresh (the
  model keeps the number that \<open>parseInt\<close> reads back). Each value is stored with the time
  to live, in seconds, given to \<open>SETEX\<close>. \<open>JSON.stringify\<close> leaves out a property that is
  \<open>undefined\<close> and keeps one that is \<open>null\<close>, so the three states survive the round trip.
\<close>

record cache_store =
  profiles :: "string \<Rightarrow> (user_profile \<times> int) option"
  refresh :: "string \<Rightarrow> (int \<times> int) option"

definition CACHE_TTL :: int where
  "CACHE_TTL = 604800"

text \<open>
  Every method of the service catches the error of its Redis command. The first argument
  of each function says whether the command goes through.
\<close>

definition getProfile :: "bool \<Rightarrow> cache_store \<Rightarrow> string \<Rightarrow> user_profile option" where
  "getProfile get_ok st steamId64 =
     (if \<not> get_ok then None
      else case profiles st steamId64 of None \<Rightarrow> None | Some (profile, ttl) \<Rightarrow> Some profile)"

definition setProfile :: "bool \<Rightarrow> cache_store \<Rightarrow> string \<Rightarrow> user_profile \<Rightarrow> cache_store" where
  "setProfile setex_ok st steamId64 profile =
     (if \<not> setex_ok then st
      else st\<lparr>profiles := (profiles st)(steamId64 := Some (profile, CACHE_TTL))\<rparr>)"

definition invalidateProfile :: "bool \<Rightarrow> cache_store \<Rightarrow> string \<Rightarrow> cache_store" where
  "invalidateProfile del_ok st steamId64 =
     (if \<not> del_ok then st else st\<lparr>profiles := (profiles st)(steamId64 := None)\<rparr>)"

definition getLastRefreshTime :: "bool \<Rightarrow> cache_store \<Rightarrow> string \<Rightarrow> int option" where
  "getLastRefreshTime get_ok st steamId64 =
     (if \<not> get_ok then None
      else case refresh st steamId64 of None \<Rightarrow> None | Some (timestamp, ttl) \<Rightarrow> Some timestamp)"

definition setLastRefreshTime :: "bool \<Rightarrow> int \<Rightarrow> cache_store \<Rightarrow> string \<Rightarrow> cache_store" where
  "setLastRefreshTime setex_ok now st steamId64 =
     (if \<not> setex_ok then st
      else st\<lparr>refresh := (refresh st)(steamId64 := Some (now, 600))\<rparr>)"

record refresh_check =
  rc_allowed :: bool
  waitTime :: "int option"

text \<open>
  \<open>canRefresh\<close>. \<open>!lastRefresh\<close> holds of \<open>null\<close> and of \<open>0\<close>;
  \<open>Math.ceil((cooldown - elapsed) / 1000)\<close> is written with integer division.
  \<open>getLastRefreshTime\<close> has caught the error of a failed read itself, so the \<open>catch\<close> of
  \<open>canRefresh\<close> has nothing left to catch.
\<close>

definition canRefresh :: "bool \<Rightarrow> int \<Rightarrow> cache_store \<Rightarrow> string \<Rightarrow> refresh_check" where
  "canRefresh get_ok now st steamId64 =
     (case getLastRefreshTime get_ok st steamId64 of
        None \<Rightarrow> \<lparr>rc_allowed = True, waitTime = None\<rparr>
      | Some lastRefresh \<Rightarrow>
          if lastRefresh = 0 then \<lparr>rc_allowed = True, waitTime = None\<rparr>
          else
            (let elapsed = now - lastRefresh;
                 cooldown = 10 * 60 * 1000
             in if elapsed < cooldown
                then \<lparr>rc_allowed = False,
                      waitTime = Some (- ((- (cooldown - elapsed)) div 1000))\<rparr>
                else \<lparr>rc_allowed = True, waitTime = None\<rparr>))"

section \<open>The route GET /profile/:id\<close>

subsection \<open>The services the route calls\<close>

text \<open>
  What an upstream provider does with a request: it has the data, it has none, or the
  request fails (network error, time-out, error status).
\<close>

datatype 'a upstream = Found 'a | NotFound | Failed

text \<open>The outcome of a promise, as \<open>Promise.allSettled\<close> reports it.\<close>

datatype 'a settled = Fulfilled 'a | Rejected

text \<open>
  \<open>FaceitService.getStats\<close> and \<open>LeetifyService.getStats\<close>: the value when the provider has
  the data, \<open>null\<close> when it has none, and \<open>null\<close> again from the \<open>catch\<close> block when a
  request fails. The Faceit service also returns \<open>null\<close> when no API key is configured.
\<close>

definition faceit_getStats :: "bool \<Rightarrow> json upstream \<Rightarrow> json field settled" where
  "faceit_getStats api_key_configured up =
     (if \<not> api_key_configured then Fulfilled Null
      else case up of
             Found v \<Rightarrow> Fulfilled (Value v)
           | NotFound \<Rightarrow> Fulfilled Null
           | Failed \<Rightarrow> Fulfilled Null)"

definition leetify_getStats :: "leetify_stats upstream \<Rightarrow> leetify_stats field settled" where
  "leetify_getStats up =
     (case up of
        Found v \<Rightarrow> Fulfilled (Value v)
      | NotFound \<Rightarrow> Fulfilled Null
      | Failed \<Rightarrow> Fulfilled Null)"

text \<open>\<open>promise.catch(() => null)\<close>.\<close>

definition catch_null :: "'a field settled \<Rightarrow> 'a field settled" where
  "catch_null p = (case p of Fulfilled v \<Rightarrow> Fulfilled v | Rejected \<Rightarrow> Fulfilled Null)"

text \<open>
  What one run of the get-or-refresh part of the route meets outside itself.
  \<open>steam_getProfile\<close> is \<open>steamService.getProfile\<close>, which throws when the profile is not
  found or a request fails (\<open>None\<close>). The three calls of \<open>cs2Service\<close> are given by the outcome of their
  promise.
  \<open>calculateRiskScore\<close>, the scoring heuristic, is a parameter.
\<close>

record env =
  cache_get_ok :: bool
  cache_setex_ok :: bool
  db_ok :: bool
  steam_getProfile :: "string \<Rightarrow> steam_profile option"
  faceit_key :: bool
  faceit_up :: "json upstream"
  leetify_up :: "leetify_stats upstream"
  premier_call :: "json field settled"
  competitive_call :: "json field settled"
  wingman_call :: "json field settled"
  calculateRiskScore :: "steam_profile \<Rightarrow> json option \<Rightarrow> leetify_stats option \<Rightarrow> json"

subsection \<open>Which fields to fetch\<close>

record needs =
  n_steam :: bool
  n_faceit :: bool
  n_leetify :: bool
  n_leetifyTeammates :: bool
  n_premier :: bool
  n_competitive :: bool
  n_wingman :: bool

text \<open>\<open>!x\<close> for a field: \<open>undefined\<close> and \<open>null\<close> are false, an object is true.\<close>

definition falsy :: "'a field \<Rightarrow> bool" where
  "falsy x = (case x of Value v \<Rightarrow> False | _ \<Rightarrow> True)"

text \<open>
  \<open>!cached.leetify?.recent_teammates || cached.leetify.recent_teammates.length === 0 ||
  !cached.leetify.recent_teammates[0]?.name\<close>: an array is true even when empty, a name
  is false when missing or empty.
\<close>

definition teammates_missing :: "leetify_stats field \<Rightarrow> bool" where
  "teammates_missing l =
     (case l of
        Value s \<Rightarrow>
          (case recent_teammates s of
             None \<Rightarrow> True
           | Some [] \<Rightarrow> True
           | Some (t # ts) \<Rightarrow> (case tm_name t of None \<Rightarrow> True | Some n \<Rightarrow> n = []))
      | _ \<Rightarrow> True)"

definition needsFetch :: "user_profile option \<Rightarrow> needs" where
  "needsFetch cached =
     (case cached of
        None \<Rightarrow>
          \<lparr>n_steam = True, n_faceit = True, n_leetify = True, n_leetifyTeammates = True,
           n_premier = True, n_competitive = True, n_wingman = True\<rparr>
      | Some c \<Rightarrow>
          \<lparr>n_steam = False,
           n_faceit = (falsy (faceit c) \<and> faceit c \<noteq> Null),
           n_leetify = (falsy (leetify c) \<and> leetify c \<noteq> Null),
           n_leetifyTeammates = teammates_missing (leetify c),
           n_premier = (falsy (premier c) \<and> premier c \<noteq> Null),
           n_competitive = (falsy (competitive c) \<and> competitive c \<noteq> Null),
           n_wingman = (falsy (wingman c) \<and> wingman c \<noteq> Null)\<rparr>)"

text \<open>\<open>Object.values(needsFetch).some(v => v)\<close>.\<close>

definition some_needed :: "needs \<Rightarrow> bool" where
  "some_needed n =
     (n_steam n \<or> n_faceit n \<or> n_leetify n \<or> n_leetifyTeammates n \<or> n_premier n
      \<or> n_competitive n \<or> n_wingman n)"

text \<open>The keys pushed to \<open>fetchKeys\<close>, in the order of the six \<open>if\<close> statements.\<close>

definition fetchKeys :: "needs \<Rightarrow> string list" where
  "fetchKeys n =
     (if n_steam n then [''steam''] else []) @
     (if n_faceit n then [''faceit''] else []) @
     (if n_leetify n then [''leetify''] else []) @
     (if n_premier n then [''premier''] else []) @
     (if n_competitive n then [''competitive''] else []) @
     (if n_wingman n then [''wingman''] else [])"

subsection \<open>Fetching and merging\<close>

text \<open>
  \<open>fetchedData[key]\<close>: \<open>undefined\<close> when the key was not fetched or its promise was
  rejected, the value the promise was fulfilled with otherwise.
\<close>

definition fetched :: "bool \<Rightarrow> 'a field settled \<Rightarrow> 'a field" where
  "fetched need p =
     (if \<not> need then Undefined else case p of Fulfilled v \<Rightarrow> v | Rejected \<Rightarrow> Undefined)"

text \<open>
  \<open>fetchedData.f !== undefined ? fetchedData.f : (cached?.f ?? null)\<close>, the second argument
  being \<open>cached?.f\<close>.
\<close>

definition merge_field :: "'a field \<Rightarrow> 'a field \<Rightarrow> 'a field" where
  "merge_field fetched_f cached_f =
     (if fetched_f \<noteq> Undefined then fetched_f
      else case cached_f of Value v \<Rightarrow> Value v | _ \<Rightarrow> Null)"

text \<open>\<open>cached?.f\<close>.\<close>

definition cached_field :: "user_profile option \<Rightarrow> (user_profile \<Rightarrow> 'a field) \<Rightarrow> 'a field" where
  "cached_field cached f = (case cached of None \<Rightarrow> Undefined | Some c \<Rightarrow> f c)"

text \<open>\<open>x || undefined\<close>, as handed to the risk calculation.\<close>

definition or_undefined :: "'a field \<Rightarrow> 'a option" where
  "or_undefined x = (case x of Value v \<Rightarrow> Some v | _ \<Rightarrow> None)"

text \<open>\<open>x === null ? null : (x || undefined)\<close>.\<close>

definition keep_null :: "'a field \<Rightarrow> 'a field" where
  "keep_null x = (if x = Null then Null else case x of Value v \<Rightarrow> Value v | _ \<Rightarrow> Undefined)"

subsection \<open>The enrichment of the teammates\<close>

text \<open>
  The function mapped over the teammates: the profile's name and avatar are written over
  the teammate's; when the profile cannot be fetched the \<open>catch\<close> returns the teammate as
  it is. The promise of this function is always fulfilled.
\<close>

definition enrich_one :: "(string \<Rightarrow> steam_profile option) \<Rightarrow> teammate \<Rightarrow> teammate settled" where
  "enrich_one get t =
     (case get (steam64_id t) of
        Some profile \<Rightarrow> Fulfilled (t\<lparr>tm_name := Some (username profile), tm_avatar := avatar profile\<rparr>)
      | None \<Rightarrow> Fulfilled t)"

text \<open>
  \<open>recent_teammates.slice(0, 6).map(...)\<close>, then the values of the fulfilled promises.
\<close>

definition enrich_teammates :: "(string \<Rightarrow> steam_profile option) \<Rightarrow> teammate list \<Rightarrow> teammate list" where
  "enrich_teammates get ts =
     concat (map (\<lambda>result. case result of Fulfilled v \<Rightarrow> [v] | Rejected \<Rightarrow> [])
                 (map (enrich_one get) (take 6 ts)))"

text \<open>
  The block \<open>if (needsFetch.leetifyTeammates && leetify?.recent_teammates &&
  leetify.recent_teammates.length > 0) { ... }\<close>, which assigns the new list to
  \<open>leetify.recent_teammates\<close>.
\<close>

definition enrichment_pass ::
  "bool \<Rightarrow> (string \<Rightarrow> steam_profile option) \<Rightarrow> leetify_stats field \<Rightarrow> leetify_stats field" where
  "enrichment_pass need get l =
     (case l of
        Value s \<Rightarrow>
          (case recent_teammates s of
             Some ts \<Rightarrow>
               if need \<and> ts \<noteq> []
               then Value (s\<lparr>recent_teammates := Some (enrich_teammates get ts)\<rparr>)
               else l
           | None \<Rightarrow> l)
      | _ \<Rightarrow> l)"

subsection \<open>The replies\<close>

datatype thrown =
    StoreError redis_error
  | ResolveFailed
  | SteamFetchFailed
  | DatabaseFailed

datatype reply =
    ServiceUnavailable
  | RateLimitExceeded
  | CaptchaFailed
  | Failure thrown
  | Success user_profile

fun status :: "reply \<Rightarrow> nat" where
  "status ServiceUnavailable = 503"
| "status RateLimitExceeded = 429"
| "status CaptchaFailed = 400"
| "status (Failure e) = 400"
| "status (Success p) = 200"

subsection \<open>Get-or-refresh: the route from the cache lookup to the reply\<close>

text \<open>
  Steps 2 to 7 of the handler, for the resolved \<open>steamId64\<close>. The result is the reply, the
  cache after the call and \<open>fetchKeys\<close>, the fields whose fetchers were called. The
  early return for a full cache hit needs a cached record: without one every field is
  needed. The three writes of step 7 are started together: the cache is written also when
  the database write fails and the handler replies with status 400.
\<close>

definition get_or_refresh :: "env \<Rightarrow> cache_store \<Rightarrow> string \<Rightarrow> reply \<times> cache_store \<times> string list" where
  "get_or_refresh e st steamId64 =
     (let cached = getProfile (cache_get_ok e) st steamId64;
          n = needsFetch cached
      in case (if some_needed n then None else cached) of
           Some c \<Rightarrow> (Success c, st, [])
         | None \<Rightarrow>
             (let f_steam = (if n_steam n then steam_getProfile e steamId64 else None);
                  f_faceit = fetched (n_faceit n) (catch_null (faceit_getStats (faceit_key e) (faceit_up e)));
                  f_leetify = fetched (n_leetify n) (catch_null (leetify_getStats (leetify_up e)));
                  f_premier = fetched (n_premier n) (catch_null (premier_call e));
                  f_competitive = fetched (n_competitive n) (catch_null (competitive_call e));
                  f_wingman = fetched (n_wingman n) (catch_null (wingman_call e));
                  steam_merged = (case f_steam of Some s \<Rightarrow> Some s | None \<Rightarrow> map_option steam cached);
                  faceit_merged = merge_field f_faceit (cached_field cached faceit);
                  leetify_merged = merge_field f_leetify (cached_field cached leetify);
                  premier_merged = merge_field f_premier (cached_field cached premier);
                  competitive_merged = merge_field f_competitive (cached_field cached competitive);
                  wingman_merged = merge_field f_wingman (cached_field cached wingman)
              in case steam_merged of
                   None \<Rightarrow> (Failure SteamFetchFailed, st, fetchKeys n)
                 | Some s \<Rightarrow>
                     (let leetify_enriched =
                            enrichment_pass (n_leetifyTeammates n) (steam_getProfile e) leetify_merged;
                          r = calculateRiskScore e s (or_undefined faceit_merged)
                                (or_undefined leetify_enriched);
                          profile = \<lparr>steam = s,
                                     faceit = keep_null faceit_merged,
                                     leetify = keep_null leetify_enriched,
                                     premier = keep_null premier_merged,
                                     competitive = keep_null competitive_merged,
                                     wingman = keep_null wingman_merged,
                                     risk = r\<rparr>;
                          st' = setProfile (cache_setex_ok e) st steamId64 profile
                      in if db_ok e then (Success profile, st', fetchKeys n)
                         else (Failure DatabaseFailed, st', fetchKeys n))))"

text \<open>
  The record that get-or-refresh builds, persists and returns when it finds the record
  \<open>c\<close> in the cache and some field needs fetching: the Steam profile is the cached one,
  every other field is merged from its fetch (if any) and the cached value.
\<close>

definition refreshed :: "env \<Rightarrow> user_profile \<Rightarrow> user_profile" where
  "refreshed e c =
     (let n = needsFetch (Some c);
          faceit_merged = merge_field (fetched (n_faceit n)
              (catch_null (faceit_getStats (faceit_key e) (faceit_up e)))) (faceit c);
          leetify_enriched = enrichment_pass (n_leetifyTeammates n) (steam_getProfile e)
              (merge_field (fetched (n_leetify n) (catch_null (leetify_getStats (leetify_up e))))
                 (leetify c))
      in \<lparr>steam = steam c,
          faceit = keep_null faceit_merged,
          leetify = keep_null leetify_enriched,
          premier = keep_null (merge_field (fetched (n_premier n) (catch_null (premier_call e)))
                                 (premier c)),
          competitive = keep_null (merge_field (fetched (n_competitive n)
                                 (catch_null (competitive_call e))) (competitive c)),
          wingman = keep_null (merge_field (fetched (n_wingman n) (catch_null (wingman_call e)))
                                 (wingman c)),
          risk = calculateRiskScore e (steam c) (or_undefined faceit_merged)
                   (or_undefined leetify_enriched)\<rparr>)"

text \<open>Get-or-refresh called again and again for one entity, each call in its own environment.\<close>

fun repeat_get_or_refresh :: "env list \<Rightarrow> cache_store \<Rightarrow> string \<Rightarrow> string list list \<times> cache_store" where
  "repeat_get_or_refresh [] st steamId64 = ([], st)"
| "repeat_get_or_refresh (e # es) st steamId64 =
     (case get_or_refresh e st steamId64 of
        (r, st', keys) \<Rightarrow>
          (case repeat_get_or_refresh es st' steamId64 of
             (logs, st'') \<Rightarrow> (keys # logs, st'')))"

text \<open>
  The fields of a record by the keys the route uses, and what it means for one to be
  absent: there is no cached record, or the record has no such property. The Steam
  profile is part of every cached record.
\<close>

definition field_keys :: "string list" where
  "field_keys = [''steam'', ''faceit'', ''leetify'', ''premier'', ''competitive'', ''wingman'']"

definition absent :: "user_profile option \<Rightarrow> string \<Rightarrow> bool" where
  "absent cached k =
     (case cached of
        None \<Rightarrow> True
      | Some c \<Rightarrow>
          (k = ''faceit'' \<and> faceit c = Undefined) \<or>
          (k = ''leetify'' \<and> leetify c = Undefined) \<or>
          (k = ''premier'' \<and> premier c = Undefined) \<or>
          (k = ''competitive'' \<and> competitive c = Undefined) \<or>
          (k = ''wingman'' \<and> wingman c = Undefined))"

subsection \<open>The handler\<close>

datatype ping_reply = Pong | OtherReply | PingFailed

text \<open>\<open>isRedisHealthy\<close>: the reply to \<open>PING\<close> is \<open>'PONG'\<close>; an error is caught and gives false.\<close>

definition isRedisHealthy :: "ping_reply \<Rightarrow> bool" where
  "isRedisHealthy p = (case p of Pong \<Rightarrow> True | OtherReply \<Rightarrow> False | PingFailed \<Rightarrow> False)"

text \<open>
  What the admission part of the handler meets: the clock, the random draw of the script,
  the reply to \<open>PING\<close>, whether \<open>redis.eval\<close> goes through, the flag of the spam detection
  middleware, the verdict of the reCAPTCHA verification on a token and an address, and
  \<open>resolveUser\<close>, which throws (\<open>None\<close>) when it cannot resolve the identifier.
\<close>

record gate_env =
  clock :: int
  random :: nat
  ping :: ping_reply
  eval_ok :: bool
  requiresCaptcha :: bool
  verifyRecaptcha :: "string \<Rightarrow> string \<Rightarrow> bool"
  resolveUser :: "string \<Rightarrow> string option"

record app_state =
  rate_limits :: rl_store
  cache :: cache_store

text \<open>
  The handler of GET /profile/:id: the request's address, user agent, forwarded-for
  header, identifier and reCAPTCHA token. Every error thrown inside is caught and answered
  with status 400.
\<close>

definition profile_get ::
  "gate_env \<Rightarrow> env \<Rightarrow> app_state \<Rightarrow> string \<Rightarrow> string option \<Rightarrow> string option \<Rightarrow> string
     \<Rightarrow> string option \<Rightarrow> reply \<times> app_state \<times> string list" where
  "profile_get g e st clientIP userAgent forwardedFor ident recaptcha_token =
     (let clientKey = getClientKey clientIP userAgent forwardedFor
      in if \<not> isRedisHealthy (ping g) then (ServiceUnavailable, st, [])
         else
           case checkAndRecordRequest (eval_ok g) (clock g) (random g) (rate_limits st)
                  clientKey None None of
             Inl err \<Rightarrow> (Failure (StoreError err), st, [])
           | Inr (rateLimit, rl') \<Rightarrow>
               (let st1 = st\<lparr>rate_limits := rl'\<rparr>;
                    challenge =
                      (if \<not> allowed rateLimit \<or> requiresCaptcha g
                       then (case recaptcha_token of
                               None \<Rightarrow> Some RateLimitExceeded
                             | Some token \<Rightarrow>
                                 if token = [] then Some RateLimitExceeded
                                 else if \<not> verifyRecaptcha g token clientIP then Some CaptchaFailed
                                 else None)
                       else None)
                in case challenge of
                     Some rejection \<Rightarrow> (rejection, st1, [])
                   | None \<Rightarrow>
                       (case resolveUser g ident of
                          None \<Rightarrow> (Failure ResolveFailed, st1, [])
                        | Some steamId64 \<Rightarrow>
                            (case get_or_refresh e (cache st1) steamId64 of
                               (r, c', keys) \<Rightarrow> (r, st1\<lparr>cache := c'\<rparr>, keys)))))"

section \<open>Properties of the admission gate\<close>


lemma zsets_zremrangebyscore:
  "zsets (zremrangebyscore key ws st) key' =
     (if key' = key then surviving ws (zsets st key) else zsets st key')"
  by (simp add: zremrangebyscore_def surviving_def Let_def not_le)

lemma filter_surviving: "filter (\<lambda>(m, s). ws \<le> s) (surviving ws z) = surviving ws z"
  by (induction z) (auto simp: surviving_def)

lemma zcount_zremrangebyscore:
  "zcount key ws (zremrangebyscore key ws st) = int (length (surviving ws (zsets st key)))"
  by (simp add: zcount_def zsets_zremrangebyscore filter_surviving)

lemma zsets_zadd:
  "zsets (zadd key sc m st) key' =
     (if key' = key
      then (if m \<in> fst ` set (zsets st key)
            then map (\<lambda>(m', s'). if m' = m then (m', sc) else (m', s')) (zsets st key)
            else zsets st key @ [(m, sc)])
      else zsets st key')"
  by (simp add: zadd_def Let_def)

lemma zsets_expire: "zsets (expire key n st) = zsets st"
  by (simp add: expire_def)

lemma lua_script_eq:
  "lua_script key now ws limit window rnd st =
     (let live = surviving ws (zsets st key); n = int (length live)
      in if n < limit
         then ((n + 1, oldest_time now (added now rnd live), 1),
               expire key (ceil_div_1000 window + 60) (zadd key now (now, rnd) (zremrangebyscore key ws st)))
         else ((n, oldest_time now live, 0), zremrangebyscore key ws st))"
  by (simp add: lua_script_def Let_def zcount_zremrangebyscore zsets_expire zsets_zadd
      zsets_zremrangebyscore added_def oldest_time_def)



lemma zrange_first_None: "zrange_first z = None \<longleftrightarrow> z = []"
  by (induction z) (auto split: option.splits)

lemma zrange_first_Some:
  "zrange_first z = Some e \<Longrightarrow> e \<in> set z \<and> (\<forall>e' \<in> set z. snd e \<le> snd e')"
proof (induction z arbitrary: e)
  case Nil
  then show ?case by simp
next
  case (Cons a z)
  show ?case
  proof (cases "zrange_first z")
    case None
    with Cons.prems show ?thesis by (simp add: zrange_first_None)
  next
    case (Some b)
    from Cons.IH [OF Some] have b: "b \<in> set z" "\<forall>e' \<in> set z. snd b \<le> snd e'" by simp_all
    from Cons.prems Some have "e = (if snd a \<le> snd b then a else b)"
      by (simp split: if_splits)
    with b show ?thesis by (auto intro: order_trans)
  qed
qed

lemma oldest_time_Min:
  "oldest_time now z = (if z = [] then now else Min (snd ` set z))"
proof (cases "zrange_first z")
  case None
  then show ?thesis by (simp add: oldest_time_def zrange_first_None)
next
  case (Some e)
  from zrange_first_Some [OF Some] have e: "e \<in> set z" "\<forall>e' \<in> set z. snd e \<le> snd e'" by simp_all
  then have "Min (snd ` set z) = snd e"
    by (intro Min_eqI) auto
  moreover from e have "z \<noteq> []" by auto
  ultimately show ?thesis using Some by (simp add: oldest_time_def split: prod.splits)
qed

lemma checkAndRecordRequest_eq:
  "checkAndRecordRequest True now rnd st key windowMs maxRequests =
     (let window = or_default windowMs DEFAULT_profile_windowMs;
          limit = or_default maxRequests DEFAULT_profile_maxRequests;
          live = surviving (now - window) (zsets st (redisKey key));
          n = int (length live)
      in if n < limit
         then Inr (\<lparr>allowed = True, remaining = max 0 (limit - (n + 1)),
                    resetTime = oldest_time now (added now rnd live) + window,
                    total = limit, currentCount = n + 1\<rparr>,
                   expire (redisKey key) (ceil_div_1000 window + 60)
                     (zadd (redisKey key) now (now, rnd)
                        (zremrangebyscore (redisKey key) (now - window) st)))
         else Inr (\<lparr>allowed = False, remaining = max 0 (limit - n),
                    resetTime = oldest_time now live + window,
                    total = limit, currentCount = n\<rparr>,
                   zremrangebyscore (redisKey key) (now - window) st))"
  by (simp add: checkAndRecordRequest_def lua_script_eq Let_def)

lemma zsets_after_allowed:
  "zsets (expire k n (zadd k now (now, rnd) (zremrangebyscore k ws st))) k' =
     (if k' = k then added now rnd (surviving ws (zsets st k)) else zsets st k')"
  by (simp add: zsets_expire zsets_zadd zsets_zremrangebyscore added_def)






lemma surviving_none: "\<forall>e \<in> set z. snd e \<le> ws \<Longrightarrow> surviving ws z = []"
  by (induction z) (auto simp: surviving_def)









lemmas rl_eval = checkAndRecordRequest_def lua_script_def zremrangebyscore_def zcount_def
  zadd_def expire_def or_default_def DEFAULT_profile_windowMs_def DEFAULT_profile_maxRequests_def
  ceil_div_1000_def redisKey_def Let_def




lemma scores_bounded_surviving:
  "\<forall>e \<in> set z. snd e \<le> b \<Longrightarrow> \<forall>e \<in> set (surviving ws z). ws < snd e \<and> snd e \<le> b"
  by (auto simp: surviving_def)

text \<open>A call for one client leaves the sorted sets of all other keys as they are.\<close>

lemma other_clients_untouched:
  assumes "checkAndRecordRequest True now rnd st key windowMs maxRequests = Inr (r, st')"
    and "k \<noteq> redisKey key"
  shows "zsets st' k = zsets st k"
  using assms
  by (auto simp: checkAndRecordRequest_eq Let_def zsets_after_allowed zsets_zremrangebyscore
      split: if_splits)

text \<open>
  While the clock does not run backwards, no recorded timestamp lies after the current
  reading: the calls keep this true of a client's sorted set.
\<close>

lemma scores_added: "\<forall>e \<in> set z. snd e \<le> now \<Longrightarrow> \<forall>e \<in> set (added now rnd z). snd e \<le> now"
  by (auto simp: added_def split: if_splits)

lemma no_future_scores_preserved:
  assumes "checkAndRecordRequest True now rnd st key windowMs maxRequests = Inr (r, st')"
    and "\<forall>e \<in> set (zsets st (redisKey key)). snd e \<le> now" and "now \<le> now'"
  shows "\<forall>e \<in> set (zsets st' (redisKey key)). snd e \<le> now'"
proof -
  define live where
    "live = surviving (now - or_default windowMs DEFAULT_profile_windowMs) (zsets st (redisKey key))"
  from scores_bounded_surviving [OF assms(2)]
  have live: "\<forall>e \<in> set live. snd e \<le> now"
    unfolding live_def by blast
  from assms(1) have "zsets st' (redisKey key) = added now rnd live \<or> zsets st' (redisKey key) = live"
    by (auto simp: checkAndRecordRequest_eq Let_def zsets_after_allowed zsets_zremrangebyscore
        live_def split: if_splits)
  with live scores_added [OF live, of rnd]
  have "\<forall>e \<in> set (zsets st' (redisKey key)). snd e \<le> now"
    by auto
  with assms(3) show ?thesis by force
qed

text \<open>
  Claim C5. The reset time that \<open>checkAndRecordRequest\<close> returns is the least score among
  the entries the call leaves in the client's sorted set, plus the window length, with
  \<open>now\<close> standing in for that score when the set is empty. Consequently, when the request is
  denied, the window length is not negative and no recorded timestamp lies after \<open>now\<close>
  (the clock does not run backwards), the reset time lies in \<open>[now, now + window]\<close>.
\<close>

theorem resetTime_oldest_plus_window:
  assumes "checkAndRecordRequest True now rnd st key windowMs maxRequests = Inr (r, st')"
  shows "resetTime r =
           (if zsets st' (redisKey key) = [] then now
            else Min (snd ` set (zsets st' (redisKey key))))
           + or_default windowMs DEFAULT_profile_windowMs
         \<and> (\<not> allowed r \<and> 0 \<le> or_default windowMs DEFAULT_profile_windowMs
              \<and> (\<forall>e \<in> set (zsets st (redisKey key)). snd e \<le> now)
            \<longrightarrow> now \<le> resetTime r
                \<and> resetTime r \<le> now + or_default windowMs DEFAULT_profile_windowMs)"
proof -
  define window where "window = or_default windowMs DEFAULT_profile_windowMs"
  define limit where "limit = or_default maxRequests DEFAULT_profile_maxRequests"
  define live where "live = surviving (now - window) (zsets st (redisKey key))"
  show ?thesis
  proof (cases "int (length live) < limit")
    case True
    with assms have r: "resetTime r = oldest_time now (added now rnd live) + window"
      "allowed r" and z: "zsets st' (redisKey key) = added now rnd live"
      by (auto simp: checkAndRecordRequest_eq Let_def window_def limit_def live_def
          zsets_after_allowed)
    then show ?thesis
      by (simp add: oldest_time_Min window_def [symmetric])
  next
    case False
    with assms have r: "resetTime r = oldest_time now live + window"
      "\<not> allowed r" and z: "zsets st' (redisKey key) = live"
      by (auto simp: checkAndRecordRequest_eq Let_def window_def limit_def live_def
          zsets_zremrangebyscore)
    have first: "resetTime r = (if zsets st' (redisKey key) = [] then now
            else Min (snd ` set (zsets st' (redisKey key)))) + window"
      by (simp add: r z oldest_time_Min)
    have second: "now \<le> resetTime r \<and> resetTime r \<le> now + window"
      if w: "0 \<le> window" and past: "\<forall>e \<in> set (zsets st (redisKey key)). snd e \<le> now"
    proof (cases "live = []")
      case True
      with w show ?thesis by (simp add: r oldest_time_Min)
    next
      case False
      then have "Min (snd ` set live) \<in> snd ` set live"
        by (intro Min_in) auto
      then obtain e where e: "e \<in> set live" "Min (snd ` set live) = snd e" by auto
      from scores_bounded_surviving [OF past, of "now - window"] e(1)
      have "now - window < snd e" "snd e \<le> now" by (auto simp: live_def)
      with False e(2) show ?thesis by (simp add: r oldest_time_Min)
    qed
    from first second show ?thesis
      by (simp add: window_def [symmetric])
  qed
qed

text \<open>
  Claim C5, witness: limit 1, one request recorded at 100 ms, a second request at 200 ms is
  denied with reset time 60100.
\<close>

theorem resetTime_oldest_plus_window_witness:
  "checkAndRecordRequest True 200 0
     \<lparr>zsets = (\<lambda>k. [])(''ratelimit:c'' := [((100, 0), 100)]),
      ttls = (\<lambda>k. None)(''ratelimit:c'' := Some 120)\<rparr>
     ''c'' (Some 60000) (Some 1)
   = Inr (\<lparr>allowed = False, remaining = 0, resetTime = 60100, total = 1, currentCount = 1\<rparr>,
          \<lparr>zsets = (\<lambda>k. [])(''ratelimit:c'' := [((100, 0), 100)]),
           ttls = (\<lambda>k. None)(''ratelimit:c'' := Some 120)\<rparr>)
   \<and> list_all (\<lambda>e. snd e \<le> 200) [((100::int, 0::nat), 100 :: int)]
   \<and> (0::int) \<le> or_default (Some 60000) DEFAULT_profile_windowMs
   \<and> (200::int) \<le> 60100 \<and> (60100::int) \<le> 200 + 60000"
proof -
  have h: "checkAndRecordRequest True 200 0
     \<lparr>zsets = (\<lambda>k. [])(''ratelimit:c'' := [((100, 0), 100)]),
      ttls = (\<lambda>k. None)(''ratelimit:c'' := Some 120)\<rparr>
     ''c'' (Some 60000) (Some 1)
   = Inr (\<lparr>allowed = False, remaining = 0, resetTime = 60100, total = 1, currentCount = 1\<rparr>,
          \<lparr>zsets = (\<lambda>k. [])(''ratelimit:c'' := [((100, 0), 100)]),
           ttls = (\<lambda>k. None)(''ratelimit:c'' := Some 120)\<rparr>)"
    by (simp add: rl_eval)
  from resetTime_oldest_plus_window [OF h] h show ?thesis
    by (simp add: or_default_def)
qed

text \<open>
  Claim C6 as stated fails. A client has one request recorded at time 0; the next check
  comes at 60001 ms, after the window of 60000 ms has passed. It is admitted, and it
  reports \<open>currentCount = 1\<close>, not 0: the script adds one to the count for the request
  it has just admitted.
\<close>

theorem idle_client_counterexample:
  "map_sum id fst (checkAndRecordRequest True 60001 7
     \<lparr>zsets = (\<lambda>k. [])(''ratelimit:c'' := [((0, 0), 0)]),
      ttls = (\<lambda>k. None)(''ratelimit:c'' := Some 120)\<rparr>
     ''c'' (Some 60000) (Some 10))
   = Inr \<lparr>allowed = True, remaining = 9, resetTime = 120001, total = 10, currentCount = 1\<rparr>"
  by (simp add: rl_eval)

text \<open>
  Claim C6, amended. Once every request recorded for a client is at least the window
  length old, the next admission check prunes all of them, admits the request (the limit
  being positive) and reports \<open>currentCount = 1\<close>: the request just admitted is the only
  entry of the client's sorted set.
\<close>

theorem idle_client_admitted_count_one:
  assumes "\<forall>e \<in> set (zsets st (redisKey key)).
             snd e + or_default windowMs DEFAULT_profile_windowMs \<le> now"
    and "0 < or_default maxRequests DEFAULT_profile_maxRequests"
  shows "\<exists>r st'. checkAndRecordRequest True now rnd st key windowMs maxRequests = Inr (r, st')
           \<and> allowed r \<and> currentCount r = 1
           \<and> zsets st' (redisKey key) = [((now, rnd), now)]"
proof -
  have "surviving (now - or_default windowMs DEFAULT_profile_windowMs) (zsets st (redisKey key)) = []"
    using assms(1) by (intro surviving_none) auto
  with assms(2) show ?thesis
    by (simp add: checkAndRecordRequest_eq Let_def zsets_after_allowed added_def)
qed

text \<open>
  Claim C6, witness of the amended statement, at the input of the counterexample.
\<close>

theorem idle_client_admitted_count_one_witness:
  "list_all (\<lambda>e. snd e + or_default (Some 60000) DEFAULT_profile_windowMs \<le> 60001)
     (zsets \<lparr>zsets = (\<lambda>k. [])(''ratelimit:c'' := [((0, 0), 0)]),
             ttls = (\<lambda>k. None)(''ratelimit:c'' := Some 120)\<rparr> (redisKey ''c''))
   \<and> 0 < or_default (Some 10) DEFAULT_profile_maxRequests
   \<and> (\<exists>r st'. checkAndRecordRequest True 60001 7
         \<lparr>zsets = (\<lambda>k. [])(''ratelimit:c'' := [((0, 0), 0)]),
          ttls = (\<lambda>k. None)(''ratelimit:c'' := Some 120)\<rparr> ''c'' (Some 60000) (Some 10) = Inr (r, st')
        \<and> allowed r \<and> currentCount r = 1
        \<and> zsets st' (redisKey ''c'') = [((60001, 7), 60001)])"
proof -
  have h1: "\<forall>e \<in> set (zsets \<lparr>zsets = (\<lambda>k. [])(''ratelimit:c'' := [((0, 0), 0)]),
                        ttls = (\<lambda>k. None)(''ratelimit:c'' := Some 120)\<rparr> (redisKey ''c'')).
       snd e + or_default (Some 60000) DEFAULT_profile_windowMs \<le> 60001"
    by (simp add: redisKey_def or_default_def)
  have h2: "0 < or_default (Some 10) DEFAULT_profile_maxRequests"
    by (simp add: or_default_def)
  from idle_client_admitted_count_one [OF h1 h2] h1 h2 show ?thesis
    by (simp add: list_all_iff)
qed


section \<open>Properties of the client key, the cooldown and the route\<close>



text \<open>
  Claim C9. The key is a function of the address, the user agent and the forwarded-for
  header, so it is stable; but the claim that two requests from different addresses do not
  get the same key by presenting the same forged header fails on the code. With a
  non-empty \<open>X-Forwarded-For\<close> the key is built from the header's first entry and the
  user agent only, the address of the connection is not used: requests from
  \<open>203.0.113.5\<close> and from \<open>192.0.2.99\<close> that both present
  \<open>X-Forwarded-For: 198.51.100.7\<close> get the same key.
\<close>

theorem forged_header_same_key:
  "getClientKey ''203.0.113.5'' (Some ''curl/8.0'') (Some ''198.51.100.7'')
     = ''198.51.100.7:curl/8.0''
   \<and> getClientKey ''192.0.2.99'' (Some ''curl/8.0'') (Some ''198.51.100.7'')
     = ''198.51.100.7:curl/8.0''"
  by (simp add: getClientKey_def trim_def split_first_def is_ws_def)

text \<open>In general: with a non-empty header, the address does not enter the key.\<close>

lemma getClientKey_ignores_ip:
  "forwardedFor \<noteq> [] \<Longrightarrow>
     getClientKey ip userAgent (Some forwardedFor) = getClientKey ip' userAgent (Some forwardedFor)"
  by (simp add: getClientKey_def)

lemma ceil_wait:
  fixes d :: int
  shows "d \<le> (- ((- d) div 1000)) * 1000 \<and> (- ((- d) div 1000)) * 1000 < d + 1000"
proof -
  have "(- d) = ((- d) div 1000) * 1000 + (- d) mod 1000" by simp
  moreover have "0 \<le> (- d) mod 1000" "(- d) mod 1000 < 1000" by simp_all
  ultimately show ?thesis by linarith
qed



lemma ceil_first_second:
  fixes e :: int
  assumes "0 \<le> e" "e < 1000"
  shows "- ((- (600000 - e)) div 1000) = 600"
proof -
  define w where "w = - ((- (600000 - e)) div 1000)"
  from ceil_wait [of "600000 - e"]
  have "600000 - e \<le> w * 1000" "w * 1000 < 600000 - e + 1000"
    by (simp_all add: w_def)
  with assms have "599 < w" "w < 601" by linarith+
  then have "w = 600" by linarith
  then show ?thesis by (simp add: w_def)
qed

lemmas cooldown_defs = canRefresh_def getLastRefreshTime_def setLastRefreshTime_def Let_def

text \<open>
  Claim C7. For every entity key: after \<open>setLastRefreshTime\<close> has written the marker at
  time \<open>t\<close> (not the epoch itself, which \<open>!lastRefresh\<close> takes for no marker), a check
  before \<open>t + 600000\<close> returns \<open>allowed = false\<close> with the remaining time rounded up to
  whole seconds, which is 600 seconds (the ten minutes of the cooldown) for a check within
  the first second; a check at or after \<open>t + 600000\<close> returns \<open>allowed = true\<close>; and
  without a marker (never written, or expired) the check returns \<open>allowed = true\<close>.
\<close>

theorem cooldown_after_marker:
  "(t \<noteq> 0 \<and> now < t + 600000 \<longrightarrow>
      (\<exists>w. canRefresh True now (setLastRefreshTime True t st steamId64) steamId64
              = \<lparr>rc_allowed = False, waitTime = Some w\<rparr>
           \<and> 600000 - (now - t) \<le> w * 1000 \<and> w * 1000 < 600000 - (now - t) + 1000))
   \<and> (t \<noteq> 0 \<and> t \<le> now \<and> now < t + 1000 \<longrightarrow>
        canRefresh True now (setLastRefreshTime True t st steamId64) steamId64
          = \<lparr>rc_allowed = False, waitTime = Some 600\<rparr>)
   \<and> (t + 600000 \<le> now \<longrightarrow>
        canRefresh get_ok now (setLastRefreshTime True t st steamId64) steamId64
          = \<lparr>rc_allowed = True, waitTime = None\<rparr>)
   \<and> (refresh st steamId64 = None \<longrightarrow>
        canRefresh get_ok now st steamId64 = \<lparr>rc_allowed = True, waitTime = None\<rparr>)"
proof (intro conjI impI)
  assume h: "t \<noteq> 0 \<and> now < t + 600000"
  from ceil_wait [of "600000 - (now - t)"] h
  show "\<exists>w. canRefresh True now (setLastRefreshTime True t st steamId64) steamId64
              = \<lparr>rc_allowed = False, waitTime = Some w\<rparr>
           \<and> 600000 - (now - t) \<le> w * 1000 \<and> w * 1000 < 600000 - (now - t) + 1000"
    by (simp add: cooldown_defs)
next
  assume h: "t \<noteq> 0 \<and> t \<le> now \<and> now < t + 1000"
  then have "- ((- (600000 - (now - t))) div 1000) = 600"
    by (intro ceil_first_second) simp_all
  with h show "canRefresh True now (setLastRefreshTime True t st steamId64) steamId64
          = \<lparr>rc_allowed = False, waitTime = Some 600\<rparr>"
    by (simp add: cooldown_defs)
next
  assume "t + 600000 \<le> now"
  then show "canRefresh get_ok now (setLastRefreshTime True t st steamId64) steamId64
          = \<lparr>rc_allowed = True, waitTime = None\<rparr>"
    by (simp add: cooldown_defs)
next
  assume "refresh st steamId64 = None"
  then show "canRefresh get_ok now st steamId64 = \<lparr>rc_allowed = True, waitTime = None\<rparr>"
    by (simp add: canRefresh_def getLastRefreshTime_def)
qed



text \<open>
  Claim C7, witness: a marker written at 1700000000000, checked 250 ms later and ten
  minutes later, and a store without a marker.
\<close>

theorem cooldown_after_marker_witness:
  "(1700000000000::int) \<noteq> 0 \<and> (1700000000250::int) < 1700000000000 + 600000
   \<and> (1700000000000::int) \<le> 1700000000250 \<and> (1700000000250::int) < 1700000000000 + 1000
   \<and> canRefresh True 1700000000250
        (setLastRefreshTime True 1700000000000
           \<lparr>profiles = (\<lambda>k. None), refresh = (\<lambda>k. None)\<rparr> ''76561198000000001'')
        ''76561198000000001''
      = \<lparr>rc_allowed = False, waitTime = Some 600\<rparr>
   \<and> (1700000000000::int) + 600000 \<le> 1700000600000
   \<and> canRefresh True 1700000600000
        (setLastRefreshTime True 1700000000000
           \<lparr>profiles = (\<lambda>k. None), refresh = (\<lambda>k. None)\<rparr> ''76561198000000001'')
        ''76561198000000001''
      = \<lparr>rc_allowed = True, waitTime = None\<rparr>
   \<and> refresh \<lparr>profiles = (\<lambda>k. None), refresh = (\<lambda>k. None)\<rparr> ''76561198000000001'' = None
   \<and> canRefresh True 1700000000250 \<lparr>profiles = (\<lambda>k. None), refresh = (\<lambda>k. None)\<rparr>
        ''76561198000000001''
      = \<lparr>rc_allowed = True, waitTime = None\<rparr>"
proof -
  note a = cooldown_after_marker [of 1700000000000 1700000000250
      "\<lparr>profiles = (\<lambda>k. None), refresh = (\<lambda>k. None)\<rparr>" "''76561198000000001''" True]
  note b = cooldown_after_marker [of 1700000000000 1700000600000
      "\<lparr>profiles = (\<lambda>k. None), refresh = (\<lambda>k. None)\<rparr>" "''76561198000000001''" True]
  have 1: "canRefresh True 1700000000250
        (setLastRefreshTime True 1700000000000
           \<lparr>profiles = (\<lambda>k. None), refresh = (\<lambda>k. None)\<rparr> ''76561198000000001'')
        ''76561198000000001''
      = \<lparr>rc_allowed = False, waitTime = Some 600\<rparr>"
    using a [THEN conjunct2, THEN conjunct1] by simp
  have 2: "canRefresh True 1700000600000
        (setLastRefreshTime True 1700000000000
           \<lparr>profiles = (\<lambda>k. None), refresh = (\<lambda>k. None)\<rparr> ''76561198000000001'')
        ''76561198000000001''
      = \<lparr>rc_allowed = True, waitTime = None\<rparr>"
    using b [THEN conjunct2, THEN conjunct2, THEN conjunct1] by simp
  have 3: "canRefresh True 1700000000250 \<lparr>profiles = (\<lambda>k. None), refresh = (\<lambda>k. None)\<rparr>
        ''76561198000000001''
      = \<lparr>rc_allowed = True, waitTime = None\<rparr>"
    using a [THEN conjunct2, THEN conjunct2, THEN conjunct2] by simp
  show ?thesis
    unfolding 1 2 3 by simp
qed

text \<open>
  Claim C10. When the read of the marker fails, \<open>canRefresh\<close> returns
  \<open>{allowed: true}\<close>, whatever the store holds: a store error never produces a cooldown
  rejection. In particular, within the cooldown after a marker was written, the check
  that reads the marker denies and the check whose read fails allows, so the
  once-per-cooldown guarantee is lost when the store errors. The health gate has the
  opposite polarity: a failed \<open>PING\<close> counts as not healthy.
\<close>

theorem canRefresh_fails_open:
  "canRefresh False now st steamId64 = \<lparr>rc_allowed = True, waitTime = None\<rparr>
   \<and> (t \<noteq> 0 \<and> now < t + 600000 \<longrightarrow>
        \<not> rc_allowed (canRefresh True now (setLastRefreshTime True t st steamId64) steamId64)
        \<and> rc_allowed (canRefresh False now (setLastRefreshTime True t st steamId64) steamId64))
   \<and> \<not> isRedisHealthy PingFailed"
  by (simp add: cooldown_defs isRedisHealthy_def)

text \<open>
  Claim C10, witness: 250 ms after the marker was written.
\<close>

theorem canRefresh_fails_open_witness:
  "(1700000000000::int) \<noteq> 0 \<and> (1700000000250::int) < 1700000000000 + 600000
   \<and> \<not> rc_allowed (canRefresh True 1700000000250
        (setLastRefreshTime True 1700000000000
           \<lparr>profiles = (\<lambda>k. None), refresh = (\<lambda>k. None)\<rparr> ''76561198000000001'')
        ''76561198000000001'')
   \<and> rc_allowed (canRefresh False 1700000000250
        (setLastRefreshTime True 1700000000000
           \<lparr>profiles = (\<lambda>k. None), refresh = (\<lambda>k. None)\<rparr> ''76561198000000001'')
        ''76561198000000001'')"
proof -
  note a = canRefresh_fails_open [of 1700000000250
      "\<lparr>profiles = (\<lambda>k. None), refresh = (\<lambda>k. None)\<rparr>" "''76561198000000001''" 1700000000000]
  have "\<not> rc_allowed (canRefresh True 1700000000250
        (setLastRefreshTime True 1700000000000
           \<lparr>profiles = (\<lambda>k. None), refresh = (\<lambda>k. None)\<rparr> ''76561198000000001'')
        ''76561198000000001'')
   \<and> rc_allowed (canRefresh False 1700000000250
        (setLastRefreshTime True 1700000000000
           \<lparr>profiles = (\<lambda>k. None), refresh = (\<lambda>k. None)\<rparr> ''76561198000000001'')
        ''76561198000000001'')"
    using a [THEN conjunct2, THEN conjunct1] by simp
  then show ?thesis by simp
qed



lemmas fetch_defs = get_or_refresh_def getProfile_def setProfile_def needsFetch_def some_needed_def
  fetchKeys_def fetched_def merge_field_def cached_field_def or_undefined_def keep_null_def
  catch_null_def faceit_getStats_def leetify_getStats_def falsy_def teammates_missing_def
  enrichment_pass_def enrich_teammates_def enrich_one_def CACHE_TTL_def Let_def

text \<open>
  Claim C3 fails on the code. The cached record has \<open>steam\<close> present, \<open>faceit\<close> absent
  and \<open>leetify\<close> (like the three remaining fields) \<open>null\<close>. Only \<open>faceit\<close> is fetched,
  and its fetch fails. The record that is persisted and returned has \<open>faceit = null\<close>:
  the failure has been turned into \<open>null\<close> by the \<open>catch\<close> blocks, and the field has
  gone from absent to resolved-empty instead of staying absent.
\<close>

theorem failed_fetch_cached_as_null:
  "get_or_refresh
     \<lparr>cache_get_ok = True, cache_setex_ok = True, db_ok = True,
      steam_getProfile = (\<lambda>i. None), faceit_key = True, faceit_up = Failed,
      leetify_up = NotFound, premier_call = Fulfilled Null, competitive_call = Fulfilled Null,
      wingman_call = Fulfilled Null, calculateRiskScore = (\<lambda>s f l. ''risk'')\<rparr>
     \<lparr>profiles = (\<lambda>k. None)(''76561198000000001'' := Some
        (\<lparr>steam = \<lparr>steam_steamId64 = ''76561198000000001'', username = ''alice'',
                    avatar = None, steam_rest = ''''\<rparr>,
          faceit = Undefined, leetify = Null, premier = Null, competitive = Null,
          wingman = Null, risk = ''risk''\<rparr>, 604800)),
      refresh = (\<lambda>k. None)\<rparr>
     ''76561198000000001''
   = (Success
        \<lparr>steam = \<lparr>steam_steamId64 = ''76561198000000001'', username = ''alice'',
                    avatar = None, steam_rest = ''''\<rparr>,
          faceit = Null, leetify = Null, premier = Null, competitive = Null,
          wingman = Null, risk = ''risk''\<rparr>,
      \<lparr>profiles = (\<lambda>k. None)(''76561198000000001'' := Some
        (\<lparr>steam = \<lparr>steam_steamId64 = ''76561198000000001'', username = ''alice'',
                    avatar = None, steam_rest = ''''\<rparr>,
          faceit = Null, leetify = Null, premier = Null, competitive = Null,
          wingman = Null, risk = ''risk''\<rparr>, 604800)),
      refresh = (\<lambda>k. None)\<rparr>,
      [''faceit''])"
  by (simp add: fetch_defs)

text \<open>
  In general: whatever the outcome of the Faceit request, what reaches the merge is
  \<open>null\<close> or a value, and a failed request gives the same as a profile that is not found.
\<close>

lemma faceit_failure_is_null:
  "fetched True (catch_null (faceit_getStats key Failed)) = Null
   \<and> fetched True (catch_null (faceit_getStats key NotFound)) = Null
   \<and> merge_field Null Undefined = (Null :: json field)"
  by (simp add: fetched_def catch_null_def faceit_getStats_def merge_field_def)

text \<open>
  Claim C2. When the health probe fails, the handler of GET /profile/:id answers with
  status 503 and leaves the whole state, the client's admission window included, as it
  was: no admission check has run. This answer differs from the answer to a request that
  is denied by the rate limit (and brings no reCAPTCHA token), which has status 429.
\<close>

theorem unhealthy_store_rejects_first:
  assumes "\<not> isRedisHealthy (ping g)"
  shows "profile_get g e st clientIP userAgent forwardedFor ident recaptcha_token
           = (ServiceUnavailable, st, [])
         \<and> status ServiceUnavailable = 503
         \<and> (\<forall>g' e' st' clientIP' userAgent' forwardedFor' ident' r rl'.
               isRedisHealthy (ping g')
               \<and> checkAndRecordRequest (eval_ok g') (clock g') (random g') (rate_limits st')
                    (getClientKey clientIP' userAgent' forwardedFor') None None = Inr (r, rl')
               \<and> \<not> allowed r
             \<longrightarrow> fst (profile_get g' e' st' clientIP' userAgent' forwardedFor' ident' None)
                   = RateLimitExceeded
                 \<and> status RateLimitExceeded = 429
                 \<and> fst (profile_get g' e' st' clientIP' userAgent' forwardedFor' ident' None)
                   \<noteq> fst (profile_get g e st clientIP userAgent forwardedFor ident recaptcha_token))"
proof -
  have first: "profile_get g e st clientIP userAgent forwardedFor ident recaptcha_token
           = (ServiceUnavailable, st, [])"
    using assms by (simp add: profile_get_def)
  have limited: "fst (profile_get g' e' st' clientIP' userAgent' forwardedFor' ident' None)
                   = RateLimitExceeded"
    if "isRedisHealthy (ping g')"
      and "checkAndRecordRequest (eval_ok g') (clock g') (random g') (rate_limits st')
             (getClientKey clientIP' userAgent' forwardedFor') None None = Inr (r, rl')"
      and "\<not> allowed r"
    for g' e' st' clientIP' userAgent' forwardedFor' ident' r rl'
    using that by (simp add: profile_get_def)
  show ?thesis
    using first limited by simp
qed



text \<open>
  Claim C2, witness: the \<open>PING\<close> fails while the client has one request recorded.
\<close>

theorem unhealthy_store_rejects_first_witness:
  "\<not> isRedisHealthy (ping \<lparr>clock = 1700000000000, random = 0, ping = PingFailed, eval_ok = True,
        requiresCaptcha = False, verifyRecaptcha = (\<lambda>token ip. False),
        resolveUser = (\<lambda>i. Some i)\<rparr>)
   \<and> profile_get
        \<lparr>clock = 1700000000000, random = 0, ping = PingFailed, eval_ok = True,
         requiresCaptcha = False, verifyRecaptcha = (\<lambda>token ip. False),
         resolveUser = (\<lambda>i. Some i)\<rparr>
        \<lparr>cache_get_ok = True, cache_setex_ok = True, db_ok = True,
         steam_getProfile = (\<lambda>i. None), faceit_key = True, faceit_up = Failed,
         leetify_up = NotFound, premier_call = Fulfilled Null, competitive_call = Fulfilled Null,
         wingman_call = Fulfilled Null, calculateRiskScore = (\<lambda>s f l. ''risk'')\<rparr>
        \<lparr>rate_limits = \<lparr>zsets = (\<lambda>k. [])(''ratelimit:203.0.113.5:unknown'' :=
                           [((1699999999000, 0), 1699999999000)]),
                         ttls = (\<lambda>k. None)(''ratelimit:203.0.113.5:unknown'' := Some 120)\<rparr>,
         cache = \<lparr>profiles = (\<lambda>k. None), refresh = (\<lambda>k. None)\<rparr>\<rparr>
        ''203.0.113.5'' None None ''76561198000000001'' None
      = (ServiceUnavailable,
         \<lparr>rate_limits = \<lparr>zsets = (\<lambda>k. [])(''ratelimit:203.0.113.5:unknown'' :=
                           [((1699999999000, 0), 1699999999000)]),
                         ttls = (\<lambda>k. None)(''ratelimit:203.0.113.5:unknown'' := Some 120)\<rparr>,
         cache = \<lparr>profiles = (\<lambda>k. None), refresh = (\<lambda>k. None)\<rparr>\<rparr>,
         [])"
proof -
  have h: "\<not> isRedisHealthy (ping \<lparr>clock = 1700000000000, random = 0, ping = PingFailed,
        eval_ok = True, requiresCaptcha = False, verifyRecaptcha = (\<lambda>token ip. False),
        resolveUser = (\<lambda>i. Some i)\<rparr>)"
    by (simp add: isRedisHealthy_def)
  from unhealthy_store_rejects_first [OF h] h show ?thesis
    by blast
qed



lemma enrich_teammates_map:
  "enrich_teammates get ts =
     map (\<lambda>t. case get (steam64_id t) of
                 Some profile \<Rightarrow> t\<lparr>tm_name := Some (username profile), tm_avatar := avatar profile\<rparr>
               | None \<Rightarrow> t) (take 6 ts)"
proof -
  have "concat (map (\<lambda>result. case result of Fulfilled v \<Rightarrow> [v] | Rejected \<Rightarrow> [])
                 (map (enrich_one get) xs))
        = map (\<lambda>t. case get (steam64_id t) of
                 Some profile \<Rightarrow> t\<lparr>tm_name := Some (username profile), tm_avatar := avatar profile\<rparr>
               | None \<Rightarrow> t) xs" for xs
    by (induction xs) (auto simp: enrich_one_def split: option.splits)
  then show ?thesis by (simp add: enrich_teammates_def)
qed

text \<open>
  Claim C8, amended. When the enrichment pass runs on a non-empty teammate collection, each
  of the first six entries is still there afterwards, at its place and with its identifier
  and match count: with the name and avatar of its profile when that was fetched, and
  exactly as it was when the fetch failed. The pass keeps the first six entries only.
\<close>

theorem enrichment_keeps_first_six:
  "recent_teammates s = Some ts \<and> ts \<noteq> [] \<longrightarrow>
     (\<exists>ts'. enrichment_pass True get (Value s) = Value (s\<lparr>recent_teammates := Some ts'\<rparr>)
        \<and> length ts' = min 6 (length ts)
        \<and> (\<forall>i < length ts'.
              steam64_id (ts' ! i) = steam64_id (ts ! i)
              \<and> recent_matches_count (ts' ! i) = recent_matches_count (ts ! i)
              \<and> (get (steam64_id (ts ! i)) = None \<longrightarrow> ts' ! i = ts ! i)
              \<and> (\<forall>profile. get (steam64_id (ts ! i)) = Some profile \<longrightarrow>
                    ts' ! i = (ts ! i)\<lparr>tm_name := Some (username profile),
                                       tm_avatar := avatar profile\<rparr>)))"
proof (intro impI)
  assume h: "recent_teammates s = Some ts \<and> ts \<noteq> []"
  let ?ts' = "enrich_teammates get ts"
  have pass: "enrichment_pass True get (Value s) = Value (s\<lparr>recent_teammates := Some ?ts'\<rparr>)"
    using h by (simp add: enrichment_pass_def)
  have len: "length ?ts' = min 6 (length ts)"
    by (simp add: enrich_teammates_map min.commute)
  have each: "steam64_id (?ts' ! i) = steam64_id (ts ! i)
              \<and> recent_matches_count (?ts' ! i) = recent_matches_count (ts ! i)
              \<and> (get (steam64_id (ts ! i)) = None \<longrightarrow> ?ts' ! i = ts ! i)
              \<and> (\<forall>profile. get (steam64_id (ts ! i)) = Some profile \<longrightarrow>
                    ?ts' ! i = (ts ! i)\<lparr>tm_name := Some (username profile),
                                       tm_avatar := avatar profile\<rparr>)"
    if "i < length ?ts'" for i
  proof -
    from that len have i: "i < 6" "i < length ts" by simp_all
    then show ?thesis
      by (simp add: enrich_teammates_map split: option.splits)
  qed
  from pass len each show "\<exists>ts'. enrichment_pass True get (Value s) = Value (s\<lparr>recent_teammates := Some ts'\<rparr>)
        \<and> length ts' = min 6 (length ts)
        \<and> (\<forall>i < length ts'.
              steam64_id (ts' ! i) = steam64_id (ts ! i)
              \<and> recent_matches_count (ts' ! i) = recent_matches_count (ts ! i)
              \<and> (get (steam64_id (ts ! i)) = None \<longrightarrow> ts' ! i = ts ! i)
              \<and> (\<forall>profile. get (steam64_id (ts ! i)) = Some profile \<longrightarrow>
                    ts' ! i = (ts ! i)\<lparr>tm_name := Some (username profile),
                                       tm_avatar := avatar profile\<rparr>))"
    by blast
qed



lemma needsFetch_Some_steam: "n_steam (needsFetch (Some c)) = False"
  by (simp add: needsFetch_def)

lemma get_or_refresh_cached:
  assumes "profiles st steamId64 = Some (c, ttl)" and "cache_get_ok e"
  shows "get_or_refresh e st steamId64 =
           (if \<not> some_needed (needsFetch (Some c)) then (Success c, st, [])
            else (if db_ok e then Success (refreshed e c) else Failure DatabaseFailed,
                  setProfile (cache_setex_ok e) st steamId64 (refreshed e c),
                  fetchKeys (needsFetch (Some c))))"
  using assms
  by (simp add: get_or_refresh_def getProfile_def cached_field_def Let_def refreshed_def
      needsFetch_Some_steam)

lemma enrichment_pass_Undefined:
  "enrichment_pass need get l = Undefined \<longleftrightarrow> l = Undefined"
  by (cases l) (simp_all add: enrichment_pass_def split: option.splits)

lemma keep_null_Undefined: "keep_null x = Undefined \<longleftrightarrow> x = Undefined"
  by (cases x) (simp_all add: keep_null_def)

lemma merge_field_Undefined: "merge_field a b \<noteq> Undefined"
  by (cases a; cases b) (simp_all add: merge_field_def)

lemma refreshed_nothing_absent: "\<not> absent (Some (refreshed e c)) k"
  by (simp add: absent_def refreshed_def Let_def keep_null_Undefined merge_field_Undefined
      enrichment_pass_Undefined)

lemma fetchKeys_iff_absent:
  "k \<in> set field_keys \<Longrightarrow> k \<in> set (fetchKeys (needsFetch cached)) \<longleftrightarrow> absent cached k"
proof (cases cached)
  case None
  assume "k \<in> set field_keys"
  with None show ?thesis
    by (simp add: field_keys_def fetchKeys_def needsFetch_def absent_def)
next
  case (Some c)
  have f: "falsy x \<and> x \<noteq> Null \<longleftrightarrow> x = Undefined" for x :: "'a field"
    by (cases x) (simp_all add: falsy_def)
  assume "k \<in> set field_keys"
  with Some show ?thesis
    by (auto simp: field_keys_def fetchKeys_def needsFetch_def absent_def f)
qed



lemma get_or_refresh_keeps_resolved:
  assumes c: "profiles st steamId64 = Some (c, ttl)" and ok: "cache_get_ok e"
    and k: "k \<in> set field_keys" and res: "\<not> absent (Some c) k"
  shows "k \<notin> set (snd (snd (get_or_refresh e st steamId64)))
         \<and> (\<exists>c' ttl'. profiles (fst (snd (get_or_refresh e st steamId64))) steamId64 = Some (c', ttl')
                \<and> \<not> absent (Some c') k)"
proof (cases "some_needed (needsFetch (Some c))")
  case False
  with c ok res show ?thesis
    by (simp add: get_or_refresh_cached)
next
  case True
  from k res have notin: "k \<notin> set (fetchKeys (needsFetch (Some c)))"
    by (simp add: fetchKeys_iff_absent)
  have "\<exists>c' ttl'. profiles (setProfile (cache_setex_ok e) st steamId64 (refreshed e c)) steamId64
            = Some (c', ttl') \<and> \<not> absent (Some c') k"
  proof (cases "cache_setex_ok e")
    case True
    then show ?thesis
      by (simp add: setProfile_def refreshed_nothing_absent)
  next
    case False
    with c res show ?thesis
      by (simp add: setProfile_def)
  qed
  with True notin c ok show ?thesis
    by (simp add: get_or_refresh_cached)
qed

lemma repeat_keeps_resolved:
  assumes "profiles st steamId64 = Some (c, ttl)" and "\<forall>e \<in> set es. cache_get_ok e"
    and "k \<in> set field_keys" and "\<not> absent (Some c) k"
  shows "(\<forall>keys \<in> set (fst (repeat_get_or_refresh es st steamId64)). k \<notin> set keys)
         \<and> (\<exists>c' ttl'. profiles (snd (repeat_get_or_refresh es st steamId64)) steamId64
                         = Some (c', ttl') \<and> \<not> absent (Some c') k)"
  using assms
proof (induction es arbitrary: st c ttl)
  case Nil
  then show ?case by simp
next
  case (Cons e es)
  from Cons.prems have ok: "cache_get_ok e" and oks: "\<forall>e \<in> set es. cache_get_ok e"
    by simp_all
  obtain r st' keys where g: "get_or_refresh e st steamId64 = (r, st', keys)"
    by (cases "get_or_refresh e st steamId64")
  from get_or_refresh_keeps_resolved [OF Cons.prems(1) ok Cons.prems(3) Cons.prems(4)] g
  obtain c' ttl' where step: "k \<notin> set keys" "profiles st' steamId64 = Some (c', ttl')"
    "\<not> absent (Some c') k"
    by auto
  obtain logs st'' where rest: "repeat_get_or_refresh es st' steamId64 = (logs, st'')"
    by (cases "repeat_get_or_refresh es st' steamId64")
  from Cons.IH [OF step(2) oks Cons.prems(3) step(3)] step(1)
  show ?case
    by (simp add: g rest)
qed

text \<open>
  The keys that a call of get-or-refresh fetches are the keys computed from the cached
  record it reads, on the early return (none) as on every other way out.
\<close>

lemma fetchKeys_nothing_needed: "\<not> some_needed n \<Longrightarrow> fetchKeys n = []"
  by (simp add: some_needed_def fetchKeys_def)

lemma needsFetch_None_needed: "some_needed (needsFetch None)"
  by (simp add: some_needed_def needsFetch_def)

lemma get_or_refresh_keys:
  "snd (snd (get_or_refresh e st steamId64))
     = fetchKeys (needsFetch (getProfile (cache_get_ok e) st steamId64))"
proof (cases "some_needed (needsFetch (getProfile (cache_get_ok e) st steamId64))")
  case True
  then show ?thesis
    by (simp add: get_or_refresh_def Let_def split: option.splits)
next
  case False
  then obtain c where c: "getProfile (cache_get_ok e) st steamId64 = Some c"
    using needsFetch_None_needed by (cases "getProfile (cache_get_ok e) st steamId64") auto
  with False show ?thesis
    by (simp add: get_or_refresh_def Let_def fetchKeys_nothing_needed)
qed

text \<open>
  Claim C4. For every cached record (or none) and every field, a call of get-or-refresh
  fetches the field exactly when the field is absent from the record the call reads (the
  same holds of the keys computed from any cached record). A field that is resolved,
  empty or present, is not fetched by any of arbitrarily many repeated get-or-refresh
  calls that read the cache, and it is still resolved after them. After
  \<open>invalidateProfile\<close> has deleted the record, the next call fetches all six fields.
\<close>

theorem fetch_exactly_absent_fields:
  "(\<forall>k \<in> set field_keys.
       k \<in> set (snd (snd (get_or_refresh e st steamId64)))
         \<longleftrightarrow> absent (getProfile (cache_get_ok e) st steamId64) k)
   \<and> (\<forall>k \<in> set field_keys. k \<in> set (fetchKeys (needsFetch cached)) \<longleftrightarrow> absent cached k)
   \<and> (profiles st steamId64 = Some (c, ttl) \<and> k \<in> set field_keys \<and> \<not> absent (Some c) k
        \<and> (\<forall>e \<in> set es. cache_get_ok e)
      \<longrightarrow> (\<forall>keys \<in> set (fst (repeat_get_or_refresh es st steamId64)). k \<notin> set keys)
          \<and> (\<exists>c' ttl'. profiles (snd (repeat_get_or_refresh es st steamId64)) steamId64
                          = Some (c', ttl') \<and> \<not> absent (Some c') k))
   \<and> snd (snd (get_or_refresh e (invalidateProfile True st steamId64) steamId64)) = field_keys
   \<and> fetchKeys (needsFetch (getProfile get_ok (invalidateProfile True st steamId64) steamId64))
       = field_keys"
proof (intro conjI impI ballI)
  fix k' assume "k' \<in> set field_keys"
  then show "k' \<in> set (snd (snd (get_or_refresh e st steamId64)))
         \<longleftrightarrow> absent (getProfile (cache_get_ok e) st steamId64) k'"
    by (simp add: get_or_refresh_keys fetchKeys_iff_absent)
next
  fix k' assume "k' \<in> set field_keys"
  then show "k' \<in> set (fetchKeys (needsFetch cached)) \<longleftrightarrow> absent cached k'"
    by (rule fetchKeys_iff_absent)
next
  assume h: "profiles st steamId64 = Some (c, ttl) \<and> k \<in> set field_keys \<and> \<not> absent (Some c) k
        \<and> (\<forall>e \<in> set es. cache_get_ok e)"
  then have a: "profiles st steamId64 = Some (c, ttl)" "\<forall>e \<in> set es. cache_get_ok e"
    "k \<in> set field_keys" "\<not> absent (Some c) k"
    by blast+
  note r = repeat_keeps_resolved [OF a]
  { fix keys assume "keys \<in> set (fst (repeat_get_or_refresh es st steamId64))"
    with r show "k \<notin> set keys" by blast }
  from r show "\<exists>c' ttl'. profiles (snd (repeat_get_or_refresh es st steamId64)) steamId64
                          = Some (c', ttl') \<and> \<not> absent (Some c') k"
    by blast
next
  have inv: "fetchKeys (needsFetch (getProfile ok (invalidateProfile True st steamId64) steamId64))
       = field_keys" for ok
    by (simp add: getProfile_def invalidateProfile_def needsFetch_def fetchKeys_def field_keys_def)
  show "snd (snd (get_or_refresh e (invalidateProfile True st steamId64) steamId64)) = field_keys"
    by (simp only: get_or_refresh_keys inv)
  show "fetchKeys (needsFetch (getProfile get_ok (invalidateProfile True st steamId64) steamId64))
       = field_keys"
    by (rule inv)
qed

text \<open>
  Claim C4, witness: \<open>faceit\<close> absent and \<open>leetify\<close> cached as \<open>null\<close>. The first call
  fetches \<open>faceit\<close>; neither of two calls during which Leetify would have data fetches
  \<open>leetify\<close>; the second call cannot write the cache.
\<close>

theorem fetch_exactly_absent_fields_witness:
  "profiles \<lparr>profiles = (\<lambda>k. None)(''76561198000000001'' := Some
        (\<lparr>steam = \<lparr>steam_steamId64 = ''76561198000000001'', username = ''alice'',
                    avatar = None, steam_rest = ''''\<rparr>,
          faceit = Undefined, leetify = Null, premier = Null, competitive = Null,
          wingman = Null, risk = ''risk''\<rparr>, 604800)),
      refresh = (\<lambda>k. None)\<rparr> ''76561198000000001''
     = Some (\<lparr>steam = \<lparr>steam_steamId64 = ''76561198000000001'', username = ''alice'',
                    avatar = None, steam_rest = ''''\<rparr>,
          faceit = Undefined, leetify = Null, premier = Null, competitive = Null,
          wingman = Null, risk = ''risk''\<rparr>, 604800)
   \<and> ''leetify'' \<in> set field_keys
   \<and> \<not> absent (Some \<lparr>steam = \<lparr>steam_steamId64 = ''76561198000000001'', username = ''alice'',
                    avatar = None, steam_rest = ''''\<rparr>,
          faceit = Undefined, leetify = Null, premier = Null, competitive = Null,
          wingman = Null, risk = ''risk''\<rparr>) ''leetify''
   \<and> list_all cache_get_ok
        [\<lparr>cache_get_ok = True, cache_setex_ok = True, db_ok = True,
          steam_getProfile = (\<lambda>i. None), faceit_key = True, faceit_up = Failed,
          leetify_up = Found \<lparr>recent_teammates = None, leetify_rest = ''''\<rparr>,
          premier_call = Fulfilled Null, competitive_call = Fulfilled Null,
          wingman_call = Fulfilled Null, calculateRiskScore = (\<lambda>s f l. ''risk'')\<rparr>,
         \<lparr>cache_get_ok = True, cache_setex_ok = False, db_ok = True,
          steam_getProfile = (\<lambda>i. None), faceit_key = True, faceit_up = NotFound,
          leetify_up = Found \<lparr>recent_teammates = None, leetify_rest = ''''\<rparr>,
          premier_call = Fulfilled Null, competitive_call = Fulfilled Null,
          wingman_call = Fulfilled Null, calculateRiskScore = (\<lambda>s f l. ''risk'')\<rparr>]
   \<and> list_all (\<lambda>keys. ''leetify'' \<notin> set keys)
        (fst (repeat_get_or_refresh
        [\<lparr>cache_get_ok = True, cache_setex_ok = True, db_ok = True,
          steam_getProfile = (\<lambda>i. None), faceit_key = True, faceit_up = Failed,
          leetify_up = Found \<lparr>recent_teammates = None, leetify_rest = ''''\<rparr>,
          premier_call = Fulfilled Null, competitive_call = Fulfilled Null,
          wingman_call = Fulfilled Null, calculateRiskScore = (\<lambda>s f l. ''risk'')\<rparr>,
         \<lparr>cache_get_ok = True, cache_setex_ok = False, db_ok = True,
          steam_getProfile = (\<lambda>i. None), faceit_key = True, faceit_up = NotFound,
          leetify_up = Found \<lparr>recent_teammates = None, leetify_rest = ''''\<rparr>,
          premier_call = Fulfilled Null, competitive_call = Fulfilled Null,
          wingman_call = Fulfilled Null, calculateRiskScore = (\<lambda>s f l. ''risk'')\<rparr>]
        \<lparr>profiles = (\<lambda>k. None)(''76561198000000001'' := Some
        (\<lparr>steam = \<lparr>steam_steamId64 = ''76561198000000001'', username = ''alice'',
                    avatar = None, steam_rest = ''''\<rparr>,
          faceit = Undefined, leetify = Null, premier = Null, competitive = Null,
          wingman = Null, risk = ''risk''\<rparr>, 604800)),
      refresh = (\<lambda>k. None)\<rparr> ''76561198000000001''))
   \<and> ''faceit'' \<in> set field_keys
   \<and> absent (getProfile (cache_get_ok
        \<lparr>cache_get_ok = True, cache_setex_ok = True, db_ok = True,
          steam_getProfile = (\<lambda>i. None), faceit_key = True, faceit_up = Failed,
          leetify_up = Found \<lparr>recent_teammates = None, leetify_rest = ''''\<rparr>,
          premier_call = Fulfilled Null, competitive_call = Fulfilled Null,
          wingman_call = Fulfilled Null, calculateRiskScore = (\<lambda>s f l. ''risk'')\<rparr>)
        \<lparr>profiles = (\<lambda>k. None)(''76561198000000001'' := Some
        (\<lparr>steam = \<lparr>steam_steamId64 = ''76561198000000001'', username = ''alice'',
                    avatar = None, steam_rest = ''''\<rparr>,
          faceit = Undefined, leetify = Null, premier = Null, competitive = Null,
          wingman = Null, risk = ''risk''\<rparr>, 604800)),
      refresh = (\<lambda>k. None)\<rparr> ''76561198000000001'') ''faceit''
   \<and> ''faceit'' \<in> set (snd (snd (get_or_refresh
        \<lparr>cache_get_ok = True, cache_setex_ok = True, db_ok = True,
          steam_getProfile = (\<lambda>i. None), faceit_key = True, faceit_up = Failed,
          leetify_up = Found \<lparr>recent_teammates = None, leetify_rest = ''''\<rparr>,
          premier_call = Fulfilled Null, competitive_call = Fulfilled Null,
          wingman_call = Fulfilled Null, calculateRiskScore = (\<lambda>s f l. ''risk'')\<rparr>
        \<lparr>profiles = (\<lambda>k. None)(''76561198000000001'' := Some
        (\<lparr>steam = \<lparr>steam_steamId64 = ''76561198000000001'', username = ''alice'',
                    avatar = None, steam_rest = ''''\<rparr>,
          faceit = Undefined, leetify = Null, premier = Null, competitive = Null,
          wingman = Null, risk = ''risk''\<rparr>, 604800)),
      refresh = (\<lambda>k. None)\<rparr> ''76561198000000001'')))"
  (is "?h1 \<and> ?h2 \<and> ?h3 \<and> ?h4 \<and> ?c \<and> ?p1 \<and> ?p2 \<and> ?p3")
proof -
  have h1: ?h1 by simp
  have h2: ?h2 by (simp add: field_keys_def)
  have h3: ?h3 by (simp add: absent_def)
  have h4: ?h4 by simp
  from h4 have h4': "\<forall>e \<in> set
        [\<lparr>cache_get_ok = True, cache_setex_ok = True, db_ok = True,
          steam_getProfile = (\<lambda>i. None), faceit_key = True, faceit_up = Failed,
          leetify_up = Found \<lparr>recent_teammates = None, leetify_rest = ''''\<rparr>,
          premier_call = Fulfilled Null, competitive_call = Fulfilled Null,
          wingman_call = Fulfilled Null, calculateRiskScore = (\<lambda>s f l. ''risk'')\<rparr>,
         \<lparr>cache_get_ok = True, cache_setex_ok = False, db_ok = True,
          steam_getProfile = (\<lambda>i. None), faceit_key = True, faceit_up = NotFound,
          leetify_up = Found \<lparr>recent_teammates = None, leetify_rest = ''''\<rparr>,
          premier_call = Fulfilled Null, competitive_call = Fulfilled Null,
          wingman_call = Fulfilled Null, calculateRiskScore = (\<lambda>s f l. ''risk'')\<rparr>]. cache_get_ok e"
    by (simp only: list_all_iff)
  from fetch_exactly_absent_fields [THEN conjunct2, THEN conjunct2, THEN conjunct1, rule_format,
      OF conjI [OF h1 conjI [OF h2 conjI [OF h3 h4']]]]
  have c: ?c by (simp only: list_all_iff) blast
  have p1: ?p1 by (simp add: field_keys_def)
  have p2: ?p2 by (simp add: getProfile_def absent_def)
  from fetch_exactly_absent_fields [THEN conjunct1, THEN bspec, OF p1, THEN iffD2, OF p2]
  have p3: ?p3 .
  from h1 h2 h3 h4 c p1 p2 p3 show ?thesis by blast
qed



text \<open>
  Claim C8 as stated fails. The cached record has seven teammates without names, so the
  enrichment pass runs; every enrichment fails. The record that is persisted and returned
  holds the first six teammates, the seventh is gone.
\<close>

theorem seventh_teammate_dropped:
  "get_or_refresh
     \<lparr>cache_get_ok = True, cache_setex_ok = True, db_ok = True,
      steam_getProfile = (\<lambda>i. None), faceit_key = True, faceit_up = NotFound,
      leetify_up = NotFound, premier_call = Fulfilled Null, competitive_call = Fulfilled Null,
      wingman_call = Fulfilled Null, calculateRiskScore = (\<lambda>s f l. ''risk'')\<rparr>
     \<lparr>profiles = (\<lambda>k. None)(''76561198000000001'' := Some
        (\<lparr>steam = \<lparr>steam_steamId64 = ''76561198000000001'', username = ''alice'',
                    avatar = None, steam_rest = ''''\<rparr>,
          faceit = Null,
          leetify = Value \<lparr>recent_teammates = Some
            [\<lparr>steam64_id = ''t1'', recent_matches_count = 9, tm_name = None, tm_avatar = None\<rparr>,
             \<lparr>steam64_id = ''t2'', recent_matches_count = 8, tm_name = None, tm_avatar = None\<rparr>,
             \<lparr>steam64_id = ''t3'', recent_matches_count = 7, tm_name = None, tm_avatar = None\<rparr>,
             \<lparr>steam64_id = ''t4'', recent_matches_count = 6, tm_name = None, tm_avatar = None\<rparr>,
             \<lparr>steam64_id = ''t5'', recent_matches_count = 5, tm_name = None, tm_avatar = None\<rparr>,
             \<lparr>steam64_id = ''t6'', recent_matches_count = 4, tm_name = None, tm_avatar = None\<rparr>,
             \<lparr>steam64_id = ''t7'', recent_matches_count = 3, tm_name = None, tm_avatar = None\<rparr>],
            leetify_rest = ''''\<rparr>,
          premier = Null, competitive = Null, wingman = Null, risk = ''risk''\<rparr>, 604800)),
      refresh = (\<lambda>k. None)\<rparr>
     ''76561198000000001''
   = (Success
        \<lparr>steam = \<lparr>steam_steamId64 = ''76561198000000001'', username = ''alice'',
                    avatar = None, steam_rest = ''''\<rparr>,
          faceit = Null,
          leetify = Value \<lparr>recent_teammates = Some
            [\<lparr>steam64_id = ''t1'', recent_matches_count = 9, tm_name = None, tm_avatar = None\<rparr>,
             \<lparr>steam64_id = ''t2'', recent_matches_count = 8, tm_name = None, tm_avatar = None\<rparr>,
             \<lparr>steam64_id = ''t3'', recent_matches_count = 7, tm_name = None, tm_avatar = None\<rparr>,
             \<lparr>steam64_id = ''t4'', recent_matches_count = 6, tm_name = None, tm_avatar = None\<rparr>,
             \<lparr>steam64_id = ''t5'', recent_matches_count = 5, tm_name = None, tm_avatar = None\<rparr>,
             \<lparr>steam64_id = ''t6'', recent_matches_count = 4, tm_name = None, tm_avatar = None\<rparr>],
            leetify_rest = ''''\<rparr>,
          premier = Null, competitive = Null, wingman = Null, risk = ''risk''\<rparr>,
      \<lparr>profiles = (\<lambda>k. None)(''76561198000000001'' := Some
        (\<lparr>steam = \<lparr>steam_steamId64 = ''76561198000000001'', username = ''alice'',
                    avatar = None, steam_rest = ''''\<rparr>,
          faceit = Null,
          leetify = Value \<lparr>recent_teammates = Some
            [\<lparr>steam64_id = ''t1'', recent_matches_count = 9, tm_name = None, tm_avatar = None\<rparr>,
             \<lparr>steam64_id = ''t2'', recent_matches_count = 8, tm_name = None, tm_avatar = None\<rparr>,
             \<lparr>steam64_id = ''t3'', recent_matches_count = 7, tm_name = None, tm_avatar = None\<rparr>,
             \<lparr>steam64_id = ''t4'', recent_matches_count = 6, tm_name = None, tm_avatar = None\<rparr>,
             \<lparr>steam64_id = ''t5'', recent_matches_count = 5, tm_name = None, tm_avatar = None\<rparr>,
             \<lparr>steam64_id = ''t6'', recent_matches_count = 4, tm_name = None, tm_avatar = None\<rparr>],
            leetify_rest = ''''\<rparr>,
          premier = Null, competitive = Null, wingman = Null, risk = ''risk''\<rparr>, 604800)),
      refresh = (\<lambda>k. None)\<rparr>,
      [])"
  by (simp add: fetch_defs)

text \<open>
  Claim C8, witness of the amended statement: two teammates, the profile of the first can
  be fetched, that of the second cannot.
\<close>

theorem enrichment_keeps_first_six_witness:
  "recent_teammates \<lparr>recent_teammates = Some
       [\<lparr>steam64_id = ''t1'', recent_matches_count = 9, tm_name = None, tm_avatar = None\<rparr>,
        \<lparr>steam64_id = ''t2'', recent_matches_count = 8, tm_name = None, tm_avatar = None\<rparr>],
       leetify_rest = ''''\<rparr>
     = Some
       [\<lparr>steam64_id = ''t1'', recent_matches_count = 9, tm_name = None, tm_avatar = None\<rparr>,
        \<lparr>steam64_id = ''t2'', recent_matches_count = 8, tm_name = None, tm_avatar = None\<rparr>]
   \<and> [\<lparr>steam64_id = ''t1'', recent_matches_count = 9, tm_name = None, tm_avatar = None\<rparr>,
        \<lparr>steam64_id = ''t2'', recent_matches_count = 8, tm_name = None, tm_avatar = None\<rparr>] \<noteq> []
   \<and> (\<exists>ts'. enrichment_pass True
          (\<lambda>i. if i = ''t1''
                then Some \<lparr>steam_steamId64 = ''t1'', username = ''bob'', avatar = Some ''b.png'',
                            steam_rest = ''''\<rparr>
                else None)
          (Value \<lparr>recent_teammates = Some
             [\<lparr>steam64_id = ''t1'', recent_matches_count = 9, tm_name = None, tm_avatar = None\<rparr>,
              \<lparr>steam64_id = ''t2'', recent_matches_count = 8, tm_name = None, tm_avatar = None\<rparr>],
             leetify_rest = ''''\<rparr>)
        = Value \<lparr>recent_teammates = Some ts', leetify_rest = ''''\<rparr>
        \<and> length ts' = 2
        \<and> ts' ! 0 = \<lparr>steam64_id = ''t1'', recent_matches_count = 9, tm_name = Some ''bob'',
                       tm_avatar = Some ''b.png''\<rparr>
        \<and> ts' ! 1 = \<lparr>steam64_id = ''t2'', recent_matches_count = 8, tm_name = None,
                       tm_avatar = None\<rparr>)"
proof -
  let ?ts = "[\<lparr>steam64_id = ''t1'', recent_matches_count = 9, tm_name = None, tm_avatar = None\<rparr>,
        \<lparr>steam64_id = ''t2'', recent_matches_count = 8, tm_name = None, tm_avatar = None\<rparr>]"
  let ?s = "\<lparr>recent_teammates = Some ?ts, leetify_rest = ''''\<rparr>"
  let ?get = "\<lambda>i. if i = ''t1''
                then Some \<lparr>steam_steamId64 = ''t1'', username = ''bob'', avatar = Some ''b.png'',
                            steam_rest = ''''\<rparr>
                else None"
  have h: "recent_teammates ?s = Some ?ts \<and> ?ts \<noteq> []" by simp
  from enrichment_keeps_first_six [of ?s ?ts ?get, rule_format, OF h]
  obtain ts' where e: "enrichment_pass True ?get (Value ?s) = Value (?s\<lparr>recent_teammates := Some ts'\<rparr>)"
    and len: "length ts' = min 6 (length ?ts)"
    and each: "\<And>i. i < length ts' \<Longrightarrow>
              (?get (steam64_id (?ts ! i)) = None \<longrightarrow> ts' ! i = ?ts ! i)
              \<and> (\<forall>profile. ?get (steam64_id (?ts ! i)) = Some profile \<longrightarrow>
                    ts' ! i = (?ts ! i)\<lparr>tm_name := Some (username profile),
                                       tm_avatar := avatar profile\<rparr>)"
    by blast
  from len have l2: "length ts' = 2" by simp
  from each [of 0] l2 have t0: "ts' ! 0 = \<lparr>steam64_id = ''t1'', recent_matches_count = 9,
      tm_name = Some ''bob'', tm_avatar = Some ''b.png''\<rparr>"
    by simp
  from each [of 1] l2 have t1: "ts' ! 1 = \<lparr>steam64_id = ''t2'', recent_matches_count = 8,
      tm_name = None, tm_avatar = None\<rparr>"
    by simp
  from e have e': "enrichment_pass True ?get (Value ?s) = Value \<lparr>recent_teammates = Some ts', leetify_rest = ''''\<rparr>"
    by simp
  from e' l2 t0 t1 h show ?thesis by blast
qed

end
